theory Spec2Isabelle
  imports Main "HOL-Library.Word"
begin

section \<open>JavaScript strings\<close>

text \<open>
  The asset number generator of \<^verbatim>\<open>src/App.tsx\<close> works on JavaScript strings and
  numbers. A string is a sequence of 16-bit code units. \<open>ascii\<close> writes a string literal
  of the source, whose characters are all ASCII, as such a sequence.
\<close>

type_synonym codeUnit = "16 word"

type_synonym jsString = "codeUnit list"

definition codeUnitOf :: "char \<Rightarrow> codeUnit" where
  "codeUnitOf c = of_nat (of_char c)"

definition ascii :: "string \<Rightarrow> jsString" where
  "ascii s = map codeUnitOf s"

text \<open>The character of a code unit below 128.\<close>

definition charOf :: "codeUnit \<Rightarrow> char" where
  "charOf u = char_of (unat u)"

definition isAscii :: "codeUnit \<Rightarrow> bool" where
  "isAscii u \<longleftrightarrow> u < 128"

text \<open>
  The built-in functions of the language that the program calls are not part of its
  source. On a string of ASCII characters what they return is fixed by the language and
  written out below. What \<^verbatim>\<open>toUpperCase\<close> and \<^verbatim>\<open>toLowerCase\<close> return on a
  string with a code unit outside ASCII (the Unicode case mappings, which can change the
  length of a string), and which code units outside ASCII count as white space for
  \<^verbatim>\<open>trim\<close> and \<^verbatim>\<open>\s\<close>, is taken as a parameter: the three fields of an
  \<open>Engine\<close>. Every property below holds for every engine.
\<close>

record Engine =
  upperBeyondAscii :: "jsString \<Rightarrow> jsString"
  lowerBeyondAscii :: "jsString \<Rightarrow> jsString"
  spaceBeyondAscii :: "codeUnit \<Rightarrow> bool"

definition asciiWhiteSpace :: string where
  "asciiWhiteSpace = [CHR 0x09, CHR 0x0A, CHR 0x0B, CHR 0x0C, CHR 0x0D, CHR 0x20]"

text \<open>The white space of \<^verbatim>\<open>trim\<close> and of \<^verbatim>\<open>\s\<close>: every such character is one code unit.\<close>

definition isWhiteSpace :: "Engine \<Rightarrow> codeUnit \<Rightarrow> bool" where
  "isWhiteSpace e u \<longleftrightarrow>
     (if isAscii u then charOf u \<in> set asciiWhiteSpace else spaceBeyondAscii e u)"

definition upperCaseLetters :: string where
  "upperCaseLetters = ''ABCDEFGHIJKLMNOPQRSTUVWXYZ''"

definition lowerCaseLetters :: string where
  "lowerCaseLetters = ''abcdefghijklmnopqrstuvwxyz''"

definition toUpperCase_char :: "char \<Rightarrow> char" where
  "toUpperCase_char c =
     (case map_of (zip lowerCaseLetters upperCaseLetters) c of Some d \<Rightarrow> d | None \<Rightarrow> c)"

definition toLowerCase_char :: "char \<Rightarrow> char" where
  "toLowerCase_char c =
     (case map_of (zip upperCaseLetters lowerCaseLetters) c of Some d \<Rightarrow> d | None \<Rightarrow> c)"

text \<open>\<^verbatim>\<open>s.toUpperCase()\<close> and \<^verbatim>\<open>s.toLowerCase()\<close>\<close>

definition toUpperCase :: "Engine \<Rightarrow> jsString \<Rightarrow> jsString" where
  "toUpperCase e s =
     (if list_all isAscii s then ascii (map (toUpperCase_char \<circ> charOf) s)
      else upperBeyondAscii e s)"

definition toLowerCase :: "Engine \<Rightarrow> jsString \<Rightarrow> jsString" where
  "toLowerCase e s =
     (if list_all isAscii s then ascii (map (toLowerCase_char \<circ> charOf) s)
      else lowerBeyondAscii e s)"

text \<open>\<^verbatim>\<open>s.trim()\<close>: white space removed at both ends.\<close>

definition trim :: "Engine \<Rightarrow> jsString \<Rightarrow> jsString" where
  "trim e s = rev (dropWhile (isWhiteSpace e) (rev (dropWhile (isWhiteSpace e) s)))"

text \<open>\<^verbatim>\<open>s.replace(/\s+/g, '-')\<close>: every maximal run of white space becomes one hyphen.\<close>

function replaceWhiteSpace :: "Engine \<Rightarrow> jsString \<Rightarrow> jsString" where
  "replaceWhiteSpace e [] = []"
| "replaceWhiteSpace e (c # cs) =
     (if isWhiteSpace e c
      then codeUnitOf (CHR ''-'') # replaceWhiteSpace e (dropWhile (isWhiteSpace e) cs)
      else c # replaceWhiteSpace e cs)"
  by pat_completeness auto
termination
proof (relation "measure (\<lambda>(e, s). length s)")
  show "wf (measure (\<lambda>(e :: Engine, s :: jsString). length s))"
    by simp
next
  fix e :: Engine and c :: codeUnit and cs :: jsString
  have "length (dropWhile (isWhiteSpace e) cs) \<le> length cs"
    by (rule length_dropWhile_le)
  then show "((e, dropWhile (isWhiteSpace e) cs), (e, c # cs)) \<in> measure (\<lambda>(e, s). length s)"
    by simp
next
  fix e :: Engine and c :: codeUnit and cs :: jsString
  show "((e, cs), (e, c # cs)) \<in> measure (\<lambda>(e, s). length s)"
    by simp
qed

text \<open>\<^verbatim>\<open>s.padStart(n, c)\<close> with a one-character filler.\<close>

definition padStart :: "nat \<Rightarrow> codeUnit \<Rightarrow> jsString \<Rightarrow> jsString" where
  "padStart n c s = replicate (n - length s) c @ s"

text \<open>\<^verbatim>\<open>s.slice(-n)\<close>: the last \<open>n\<close> code units, or all of \<open>s\<close> when it is shorter.\<close>

definition sliceLast :: "nat \<Rightarrow> jsString \<Rightarrow> jsString" where
  "sliceLast n s = drop (length s - n) s"

text \<open>\<^verbatim>\<open>s.substring(0, n)\<close>.\<close>

definition substring0 :: "nat \<Rightarrow> jsString \<Rightarrow> jsString" where
  "substring0 n s = take n s"

section \<open>JavaScript numbers\<close>

text \<open>
  A number of the program is an integer held in a binary64 floating point value: every
  integer up to \<open>2 ^ 53\<close> in absolute value, and beyond that the integers with a
  53-bit significand. The sum and the difference of two numbers are rounded to the
  nearest such value, to the one with the even significand when two are equally near.
  (The sums of the program add 1 or 999 or subtract 1, and so stay finite.)
\<close>

fun bitLength :: "nat \<Rightarrow> nat" where
  "bitLength n = (if n = 0 then 0 else Suc (bitLength (n div 2)))"

declare bitLength.simps [simp del]

definition roundToDouble :: "int \<Rightarrow> int" where
  "roundToDouble x =
     (let n = nat \<bar>x\<bar>;
          q = 2 ^ (bitLength n - 53);
          m = n div q;
          r = n mod q;
          m' = (if q < 2 * r \<or> (2 * r = q \<and> odd m) then m + 1 else m)
      in sgn x * int (m' * q))"

definition jsPlus :: "int \<Rightarrow> int \<Rightarrow> int" where
  "jsPlus a b = roundToDouble (a + b)"

definition jsMinus :: "int \<Rightarrow> int \<Rightarrow> int" where
  "jsMinus a b = roundToDouble (a - b)"


definition digitChar :: "nat \<Rightarrow> char" where
  "digitChar d = ''0123456789'' ! d"

fun digits :: "nat \<Rightarrow> string" where
  "digits n = (if n < 10 then [digitChar n] else digits (n div 10) @ [digitChar (n mod 10)])"

declare digits.simps [simp del]

text \<open>The decimal digits of an integer, with a minus sign before a negative one.\<close>

definition decimal :: "int \<Rightarrow> string" where
  "decimal i = (if i < 0 then CHR ''-'' # digits (nat (- i)) else digits (nat i))"

text \<open>
  \<^verbatim>\<open>n.toString()\<close> for an integer \<open>n\<close> of at most \<open>2 ^ 53\<close> in absolute value,
  which is printed with all its decimal digits. (A larger number is printed with the
  shortest digits that read back as the same number, and in exponent form from
  \<open>10 ^ 21\<close>; the properties below that depend on the digits of a range bound or of a
  counter take it to be a safe integer.)
\<close>

definition toString :: "int \<Rightarrow> jsString" where
  "toString i = ascii (decimal i)"

section \<open>The JavaScript Map\<close>

text \<open>
  A \<^verbatim>\<open>Map\<close> keeps its entries in insertion order and holds every key once.
  \<^verbatim>\<open>set\<close> on a key that is present replaces the value where the entry stands; on a
  new key it appends the entry.
\<close>

fun setEntry :: "'k \<Rightarrow> 'v \<Rightarrow> ('k \<times> 'v) list \<Rightarrow> ('k \<times> 'v) list" where
  "setEntry k v [] = [(k, v)]"
| "setEntry k v ((k', v') # es) =
     (if k' = k then (k, v) # es else (k', v') # setEntry k v es)"

typedef ('k, 'v) JSMap = "{es :: ('k \<times> 'v) list. distinct (map fst es)}"
  by (rule exI [of _ "[]"]) simp

setup_lifting type_definition_JSMap

lemma map_fst_setEntry:
  "map fst (setEntry k v es) = (if k \<in> fst ` set es then map fst es else map fst es @ [k])"
  by (induction es) force+

lemma distinct_setEntry: "distinct (map fst es) \<Longrightarrow> distinct (map fst (setEntry k v es))"
  by (simp add: map_fst_setEntry)

text \<open>\<^verbatim>\<open>new Map()\<close>\<close>

lift_definition Map_empty :: "('k, 'v) JSMap" is "[]"
  by simp

text \<open>\<^verbatim>\<open>m.set(k, v)\<close>, returning the map as the source's chained call does.\<close>

lift_definition Map_set :: "'k \<Rightarrow> 'v \<Rightarrow> ('k, 'v) JSMap \<Rightarrow> ('k, 'v) JSMap" is setEntry
  by (rule distinct_setEntry)

text \<open>\<^verbatim>\<open>m.get(k)\<close>; \<open>None\<close> is \<^verbatim>\<open>undefined\<close>.\<close>

lift_definition Map_get :: "('k, 'v) JSMap \<Rightarrow> 'k \<Rightarrow> 'v option" is "\<lambda>es k. map_of es k" .

text \<open>\<^verbatim>\<open>Array.from(m.entries())\<close>\<close>

lift_definition Map_entries :: "('k, 'v) JSMap \<Rightarrow> ('k \<times> 'v) list" is "\<lambda>es. es" .

text \<open>\<^verbatim>\<open>new Map(pairs)\<close>: the pairs are set one after the other, from the first.\<close>

definition Map_new :: "('k \<times> 'v) list \<Rightarrow> ('k, 'v) JSMap" where
  "Map_new pairs = foldl (\<lambda>m (k, v). Map_set k v m) Map_empty pairs"

section \<open>Asset types and the generator\<close>

datatype icon = Laptop | Monitor | Keyboard | Mouse | Printer | HardDrive | Server

definition iconMap :: "jsString \<Rightarrow> icon option" where
  "iconMap = map_of
     [(ascii ''laptop'', Laptop), (ascii ''desktop'', Monitor), (ascii ''keyboard'', Keyboard),
      (ascii ''mouse'', Mouse), (ascii ''printer'', Printer), (ascii ''storage'', HardDrive),
      (ascii ''server'', Server), (ascii ''default'', HardDrive)]"

text \<open>
  \<open>iconMap\<close> is a plain object, so a lookup also finds the members it inherits from
  \<^verbatim>\<open>Object.prototype\<close>, none of which is an icon and all of which are truthy.
\<close>

definition objectPrototypeKeys :: "jsString list" where
  "objectPrototypeKeys = map ascii
     [''constructor'', ''hasOwnProperty'', ''isPrototypeOf'', ''propertyIsEnumerable'',
      ''toLocaleString'', ''toString'', ''valueOf'', ''__proto__'', ''__defineGetter__'',
      ''__defineSetter__'', ''__lookupGetter__'', ''__lookupSetter__'']"

datatype element = Component icon | ObjectPrototypeMember jsString

definition getIconComponent :: "jsString option \<Rightarrow> element" where
  "getIconComponent iconId =
     (case iconId of
        None \<Rightarrow> Component HardDrive
      | Some i \<Rightarrow>
          (if i = [] then Component HardDrive
           else case iconMap i of
                  Some c \<Rightarrow> Component c
                | None \<Rightarrow> (if i \<in> set objectPrototypeKeys then ObjectPrototypeMember i
                           else Component HardDrive)))"

text \<open>The field \<^verbatim>\<open>id\<close> of the source is \<open>asset_id\<close> here.\<close>

record AssetType =
  asset_id :: jsString
  name :: jsString
  prefix :: jsString
  icon :: element
  iconId :: jsString
  rangeStart :: int
  rangeEnd :: int
  isDefault :: bool

definition defaultAssetTypes :: "AssetType list" where
  "defaultAssetTypes =
    [\<lparr>asset_id = ascii ''laptop'', name = ascii ''Laptop'', prefix = ascii ''LT'',
      icon = Component Laptop, iconId = ascii ''laptop'',
      rangeStart = 1, rangeEnd = 1000, isDefault = True\<rparr>,
     \<lparr>asset_id = ascii ''desktop'', name = ascii ''Desktop PC'', prefix = ascii ''PC'',
      icon = Component Monitor, iconId = ascii ''desktop'',
      rangeStart = 1001, rangeEnd = 2000, isDefault = True\<rparr>,
     \<lparr>asset_id = ascii ''keyboard'', name = ascii ''Keyboard'', prefix = ascii ''KB'',
      icon = Component Keyboard, iconId = ascii ''keyboard'',
      rangeStart = 2001, rangeEnd = 3000, isDefault = True\<rparr>,
     \<lparr>asset_id = ascii ''mouse'', name = ascii ''Mouse'', prefix = ascii ''MS'',
      icon = Component Mouse, iconId = ascii ''mouse'',
      rangeStart = 3001, rangeEnd = 4000, isDefault = True\<rparr>,
     \<lparr>asset_id = ascii ''printer'', name = ascii ''Printer'', prefix = ascii ''PR'',
      icon = Component Printer, iconId = ascii ''printer'',
      rangeStart = 4001, rangeEnd = 5000, isDefault = True\<rparr>,
     \<lparr>asset_id = ascii ''storage'', name = ascii ''Storage Device'', prefix = ascii ''SD'',
      icon = Component HardDrive, iconId = ascii ''storage'',
      rangeStart = 5001, rangeEnd = 6000, isDefault = True\<rparr>]"

text \<open>
  The generator reads the clock with \<^verbatim>\<open>new Date()\<close>; the source function has no
  parameter for it. The reading is the parameter \<open>now\<close> here: \<open>getFullYear\<close> is
  the calendar year, \<open>getMonth\<close> the month counted from zero and \<open>getDate\<close> the
  day of the month, as the methods of a \<^verbatim>\<open>Date\<close> return them. The generator calls
  the first two only.
\<close>

record Date =
  getFullYear :: int
  getMonth :: nat
  getDate :: nat

definition year :: "Date \<Rightarrow> jsString" where
  "year now = sliceLast 2 (toString (getFullYear now))"

definition month :: "Date \<Rightarrow> jsString" where
  "month now =
     padStart 2 (codeUnitOf (CHR ''0'')) (toString (jsPlus (int (getMonth now)) 1))"

definition keyPrefix :: "Date \<Rightarrow> AssetType \<Rightarrow> jsString" where
  "keyPrefix now assetType = prefix assetType @ year now @ month now"

text \<open>
  The result of the generator: \<open>Exhausted msg\<close> is the source's \<^verbatim>\<open>return null\<close>,
  with the text it has passed to \<^verbatim>\<open>alert\<close> before; \<open>Generated\<close> carries the two
  fields of the object returned.
\<close>

datatype generated = Exhausted jsString | Generated jsString int

definition exhaustedAlert :: "Date \<Rightarrow> AssetType \<Rightarrow> jsString" where
  "exhaustedAlert now assetType =
     ascii ''Error: The number range ('' @ toString (rangeStart assetType) @ ascii ''-'' @
     toString (rangeEnd assetType) @ ascii '') for '' @ name assetType @ ascii '' ('' @
     prefix assetType @ ascii '') is full for the current month ('' @ year now @
     ascii ''-'' @ month now @ ascii '').''"

definition lastUsedNumber ::
  "Date \<Rightarrow> AssetType \<Rightarrow> (jsString, int) JSMap \<Rightarrow> int" where
  "lastUsedNumber now assetType lastGeneratedCounters =
     (case Map_get lastGeneratedCounters (keyPrefix now assetType) of
        Some n \<Rightarrow> n
      | None \<Rightarrow> jsMinus (rangeStart assetType) 1)"

definition generateNextAssetNumber ::
  "Date \<Rightarrow> AssetType \<Rightarrow> (jsString, int) JSMap \<Rightarrow> generated" where
  "generateNextAssetNumber now assetType lastGeneratedCounters =
     (let nextNumber = jsPlus (lastUsedNumber now assetType lastGeneratedCounters) 1
      in if nextNumber > rangeEnd assetType then Exhausted (exhaustedAlert now assetType)
         else let formattedNum = padStart 4 (codeUnitOf (CHR ''0'')) (toString nextNumber);
                  assetNumber = keyPrefix now assetType @ formattedNum
              in Generated assetNumber nextNumber)"

text \<open>
  What a reading of the clock satisfies: the month is one of the twelve, and the year has
  at least two decimal digits, so that \<^verbatim>\<open>slice(-2)\<close> returns two characters.
\<close>

definition clockReading :: "Date \<Rightarrow> bool" where
  "clockReading now \<longleftrightarrow> 10 \<le> getFullYear now \<and> getMonth now < 12"

section \<open>The state of the component and its event handlers\<close>

text \<open>
  The state of \<^verbatim>\<open>App\<close>: one field for each \<^verbatim>\<open>useState\<close>. \<open>newAssetType\<close> is the
  pair of the form's \<^verbatim>\<open>name\<close> and \<^verbatim>\<open>prefix\<close>. A handler returns the text it has
  passed to \<^verbatim>\<open>alert\<close>, if any, and the state after its updates.
\<close>

record App =
  assetTypes :: "AssetType list"
  lastGeneratedCounters :: "(jsString, int) JSMap"
  selectedType :: jsString
  showAddForm :: bool
  newAssetType :: "jsString \<times> jsString"
  generatedNumber :: jsString

text \<open>
  \<^verbatim>\<open>loadCounters\<close>: the argument is the array of pairs parsed from the stored text,
  \<open>None\<close> when nothing is stored or the text does not parse.
\<close>

definition loadCounters :: "(jsString \<times> int) list option \<Rightarrow> (jsString, int) JSMap" where
  "loadCounters storedValue =
     (case storedValue of Some parsedArray \<Rightarrow> Map_new parsedArray | None \<Rightarrow> Map_empty)"

text \<open>The array the counters effect hands to \<^verbatim>\<open>JSON.stringify\<close>.\<close>

definition countersArray :: "(jsString, int) JSMap \<Rightarrow> (jsString \<times> int) list" where
  "countersArray m = Map_entries m"

text \<open>
  The state at the start with nothing stored: the default types, no counters and the
  first type selected.
\<close>

definition initialApp :: App where
  "initialApp =
     \<lparr>assetTypes = defaultAssetTypes, lastGeneratedCounters = loadCounters None,
      selectedType = (case defaultAssetTypes of t # _ \<Rightarrow> asset_id t | [] \<Rightarrow> []),
      showAddForm = False, newAssetType = ([], []), generatedNumber = []\<rparr>"

definition handleGenerate :: "Date \<Rightarrow> App \<Rightarrow> jsString option \<times> App" where
  "handleGenerate now s =
     (case find (\<lambda>t. asset_id t = selectedType s) (assetTypes s) of
        None \<Rightarrow> (None, s)
      | Some asset \<Rightarrow>
          (case generateNextAssetNumber now asset (lastGeneratedCounters s) of
             Generated assetNumber nextCounterValue \<Rightarrow>
               (let keyPrefix = substring0 (length (prefix asset) + 4) assetNumber
                in (None,
                    s\<lparr>lastGeneratedCounters :=
                        Map_set keyPrefix nextCounterValue
                          (Map_new (Map_entries (lastGeneratedCounters s))),
                      generatedNumber := assetNumber\<rparr>))
           | Exhausted msg \<Rightarrow> (Some msg, s\<lparr>generatedNumber := []\<rparr>)))"

definition prefixExists :: "Engine \<Rightarrow> AssetType list \<Rightarrow> jsString \<Rightarrow> bool" where
  "prefixExists e types trimmedPrefix \<longleftrightarrow>
     list_ex (\<lambda>t. toUpperCase e (prefix t) = trimmedPrefix) types"

definition nameExists :: "Engine \<Rightarrow> AssetType list \<Rightarrow> jsString \<Rightarrow> bool" where
  "nameExists e types trimmedName \<longleftrightarrow>
     list_ex (\<lambda>t. toLowerCase e (name t) = toLowerCase e trimmedName) types"

definition maxRangeEnd :: "AssetType list \<Rightarrow> int" where
  "maxRangeEnd types = foldl (\<lambda>m t. max m (rangeEnd t)) 0 types"

definition handleAddAssetType :: "Engine \<Rightarrow> App \<Rightarrow> jsString option \<times> App" where
  "handleAddAssetType e s =
     (let trimmedName = trim e (fst (newAssetType s));
          trimmedPrefix = toUpperCase e (trim e (snd (newAssetType s)))
      in if trimmedName \<noteq> [] \<and> trimmedPrefix \<noteq> [] \<and>
            length trimmedPrefix \<ge> 2 \<and> length trimmedPrefix \<le> 3
         then
           if prefixExists e (assetTypes s) trimmedPrefix
           then (Some (ascii ''Prefix already exists!''), s)
           else if nameExists e (assetTypes s) trimmedName
           then (Some (ascii ''Name already exists!''), s)
           else
             (let newRangeStart = jsPlus (maxRangeEnd (assetTypes s)) 1;
                  newRangeEnd = jsPlus newRangeStart 999;
                  newId = replaceWhiteSpace e (toLowerCase e trimmedName);
                  newTypeToAdd =
                    \<lparr>asset_id = newId, name = trimmedName, prefix = trimmedPrefix,
                     icon = getIconComponent (Some (ascii ''default'')),
                     iconId = ascii ''default'',
                     rangeStart = newRangeStart, rangeEnd = newRangeEnd,
                     isDefault = False\<rparr>
              in (None,
                  s\<lparr>assetTypes := assetTypes s @ [newTypeToAdd],
                    newAssetType := ([], []), showAddForm := False\<rparr>))
         else if trimmedName = [] then (Some (ascii ''Asset Name cannot be empty.''), s)
         else if trimmedPrefix = [] then (Some (ascii ''Prefix cannot be empty.''), s)
         else (Some (ascii ''Prefix must be 2 or 3 characters long.''), s))"

definition handleRemoveAssetType :: "jsString \<Rightarrow> App \<Rightarrow> jsString option \<times> App" where
  "handleRemoveAssetType idToRemove s =
     (let typeToRemove = find (\<lambda>t. asset_id t = idToRemove) (assetTypes s)
      in if (case typeToRemove of Some t \<Rightarrow> isDefault t | None \<Rightarrow> False)
         then (Some (ascii ''Default asset types cannot be removed.''), s)
         else if length (assetTypes s) \<le> 1
         then (Some (ascii ''Cannot remove the last asset type!''), s)
         else
           (let remainingTypes = filter (\<lambda>t. asset_id t \<noteq> idToRemove) (assetTypes s)
            in (None,
                s\<lparr>assetTypes := remainingTypes,
                  selectedType :=
                    (if selectedType s = idToRemove
                     then (case remainingTypes of t # _ \<Rightarrow> asset_id t | [] \<Rightarrow> [])
                     else selectedType s)\<rparr>)))"

section \<open>Example states\<close>

text \<open>
  An engine for the examples. Their strings are ASCII, so its fields play no part in them.
\<close>

definition asciiEngine :: Engine where
  "asciiEngine =
     \<lparr>upperBeyondAscii = (\<lambda>s. s), lowerBeyondAscii = (\<lambda>s. s),
      spaceBeyondAscii = (\<lambda>u. False)\<rparr>"

text \<open>Readings of the clock for the examples: 15 and 30 June 2024, and 15 July 2024.\<close>

definition june2024 :: Date where
  "june2024 = \<lparr>getFullYear = 2024, getMonth = 5, getDate = 15\<rparr>"

definition june2024_end :: Date where
  "june2024_end = \<lparr>getFullYear = 2024, getMonth = 5, getDate = 30\<rparr>"

definition july2024 :: Date where
  "july2024 = \<lparr>getFullYear = 2024, getMonth = 6, getDate = 15\<rparr>"

text \<open>The first of the default types.\<close>

definition laptop :: AssetType where
  "laptop = defaultAssetTypes ! 0"


text \<open>A type added by the user, and a registry that holds it beside the defaults.\<close>

definition serverType :: AssetType where
  "serverType =
     \<lparr>asset_id = ascii ''server'', name = ascii ''Server'', prefix = ascii ''SV'',
      icon = Component HardDrive, iconId = ascii ''default'',
      rangeStart = 6001, rangeEnd = 7000, isDefault = False\<rparr>"

definition serverApp :: App where
  "serverApp = initialApp\<lparr>assetTypes := defaultAssetTypes @ [serverType]\<rparr>"

text \<open>The form filled in with a new name and prefix, over the default registry.\<close>

definition addServerApp :: App where
  "addServerApp = initialApp\<lparr>newAssetType := (ascii ''Server'', ascii ''sv'')\<rparr>"

definition addDesktopApp :: App where
  "addDesktopApp = initialApp\<lparr>newAssetType := (ascii ''Desktop'', ascii ''DT'')\<rparr>"




text \<open>A stored registry whose one type has a range below zero.\<close>

definition negativeRangeApp :: App where
  "negativeRangeApp =
     initialApp
       \<lparr>assetTypes :=
          [\<lparr>asset_id = ascii ''probe'', name = ascii ''Probe'', prefix = ascii ''PB'',
            icon = Component HardDrive, iconId = ascii ''default'',
            rangeStart = - 10, rangeEnd = - 5, isDefault = False\<rparr>],
        newAssetType := (ascii ''Server'', ascii ''SV'')\<rparr>"



text \<open>Two names that differ but give one id, typed into the form one after the other.\<close>

definition addMyServerApp :: App where
  "addMyServerApp = initialApp\<lparr>newAssetType := (ascii ''My Server'', ascii ''SV'')\<rparr>"

definition twoServersApp :: "Engine \<Rightarrow> App" where
  "twoServersApp e =
     snd (handleAddAssetType e
       ((snd (handleAddAssetType e addMyServerApp))
          \<lparr>newAssetType := (ascii ''my-server'', ascii ''SW'')\<rparr>))"

section \<open>Properties\<close>

subsection \<open>Facts about strings\<close>

lemma unat_codeUnitOf: "unat (codeUnitOf c) = of_char c"
proof -
  have "(of_char c :: nat) mod 256 = of_char c"
    by (rule of_char_mod_256)
  then have "(of_char c :: nat) < 256"
    by (metis mod_less_divisor zero_less_numeral)
  then have "(of_char c :: nat) < 65536"
    by linarith
  then have "(of_char c :: nat) mod 2 ^ LENGTH(16) = of_char c"
    by simp
  then show ?thesis
    unfolding codeUnitOf_def by (simp only: unat_of_nat)
qed

lemma charOf_codeUnitOf [simp]: "charOf (codeUnitOf c) = c"
  by (simp add: charOf_def unat_codeUnitOf)

lemma codeUnitOf_eq_iff [simp]: "codeUnitOf c = codeUnitOf d \<longleftrightarrow> c = d"
proof
  assume "codeUnitOf c = codeUnitOf d"
  then have "charOf (codeUnitOf c) = charOf (codeUnitOf d)"
    by simp
  then show "c = d"
    by simp
qed simp

lemma isAscii_codeUnitOf [simp]: "isAscii (codeUnitOf c) \<longleftrightarrow> \<not> digit7 c"
proof -
  have "isAscii (codeUnitOf c) \<longleftrightarrow> unat (codeUnitOf c) < 128"
    by (simp add: isAscii_def word_less_nat_alt)
  also have "\<dots> \<longleftrightarrow> (of_char c :: nat) < 128"
    by (simp add: unat_codeUnitOf)
  also have "\<dots> \<longleftrightarrow> \<not> digit7 c"
    by (cases c) simp
  finally show ?thesis .
qed

lemma ascii_Nil [simp]: "ascii [] = []"
  by (simp add: ascii_def)

lemma ascii_Cons: "ascii (c # cs) = codeUnitOf c # ascii cs"
  by (simp add: ascii_def)

lemma ascii_append: "ascii (s @ t) = ascii s @ ascii t"
  by (simp add: ascii_def)

lemma length_ascii [simp]: "length (ascii s) = length s"
  by (simp add: ascii_def)

lemma ascii_eq_iff [simp]: "ascii s = ascii t \<longleftrightarrow> s = t"
proof -
  have "inj codeUnitOf"
    by (rule injI) simp
  then show ?thesis
    unfolding ascii_def by (simp add: inj_map_eq_map)
qed

lemma ascii_eq_Nil_iff [simp]: "ascii s = [] \<longleftrightarrow> s = []"
  by (simp add: ascii_def)

lemma take_ascii: "take n (ascii s) = ascii (take n s)"
  by (simp add: ascii_def take_map)

lemma drop_ascii: "drop n (ascii s) = ascii (drop n s)"
  by (simp add: ascii_def drop_map)

lemma replicate_codeUnitOf: "replicate n (codeUnitOf c) = ascii (replicate n c)"
  by (simp add: ascii_def)

lemma padStart_ascii:
  "padStart n (codeUnitOf c) (ascii s) = ascii (replicate (n - length s) c @ s)"
  by (simp add: padStart_def ascii_append replicate_codeUnitOf)

lemma sliceLast_ascii: "sliceLast n (ascii s) = ascii (drop (length s - n) s)"
  by (simp add: sliceLast_def drop_ascii)

lemma isWhiteSpace_codeUnitOf:
  "\<not> digit7 c \<Longrightarrow> isWhiteSpace e (codeUnitOf c) \<longleftrightarrow> c \<in> set asciiWhiteSpace"
  by (simp add: isWhiteSpace_def)

subsection \<open>Facts about numbers\<close>

lemma bitLength_le: "n < 2 ^ k \<Longrightarrow> bitLength n \<le> k"
proof (induction k arbitrary: n)
  case 0
  then show ?case by (simp add: bitLength.simps)
next
  case (Suc k)
  then have "n div 2 < 2 ^ k"
    by simp
  then have "bitLength (n div 2) \<le> k"
    by (rule Suc.IH)
  then show ?case
    by (subst bitLength.simps) simp
qed

lemma bitLength_power: "bitLength (2 ^ k) = Suc k"
proof (induction k)
  case 0
  show ?case by (simp add: bitLength.simps [of "Suc 0"] bitLength.simps [of 0])
next
  case (Suc k)
  then show ?case
    by (subst bitLength.simps) simp
qed

lemma roundToDouble_below: "\<bar>x\<bar> < 2 ^ 53 \<Longrightarrow> roundToDouble x = x"
proof -
  assume "\<bar>x\<bar> < 2 ^ 53"
  then have "nat \<bar>x\<bar> < 2 ^ 53"
    by simp
  then have "bitLength (nat \<bar>x\<bar>) \<le> 53"
    by (rule bitLength_le)
  then have "bitLength (nat \<bar>x\<bar>) - 53 = 0"
    by simp
  then show ?thesis
    by (simp add: roundToDouble_def Let_def mult_sgn_abs)
qed

lemma roundToDouble_power: "roundToDouble (2 ^ 53) = 2 ^ 53" "roundToDouble (- (2 ^ 53)) = - (2 ^ 53)"
proof -
  have n: "nat \<bar>2 ^ 53 :: int\<bar> = 2 ^ 53" "nat \<bar>- (2 ^ 53) :: int\<bar> = 2 ^ 53"
    by simp_all
  have b: "bitLength (2 ^ 53) - 53 = 1"
    by (simp only: bitLength_power)
  show "roundToDouble (2 ^ 53) = 2 ^ 53"
    unfolding roundToDouble_def Let_def n b by simp
  show "roundToDouble (- (2 ^ 53)) = - (2 ^ 53)"
    unfolding roundToDouble_def Let_def n b by simp
qed

lemma roundToDouble_exact: "\<bar>x\<bar> \<le> 2 ^ 53 \<Longrightarrow> roundToDouble x = x"
proof -
  assume "\<bar>x\<bar> \<le> 2 ^ 53"
  then consider "\<bar>x\<bar> < 2 ^ 53" | "x = 2 ^ 53" | "x = - (2 ^ 53)"
    by linarith
  then show ?thesis
    by cases (simp_all only: roundToDouble_below roundToDouble_power)
qed

lemma jsPlus_exact: "\<bar>a + b\<bar> \<le> 2 ^ 53 \<Longrightarrow> jsPlus a b = a + b"
  by (simp add: jsPlus_def roundToDouble_exact)

lemma jsMinus_exact: "\<bar>a - b\<bar> \<le> 2 ^ 53 \<Longrightarrow> jsMinus a b = a - b"
  by (simp add: jsMinus_def roundToDouble_exact)

text \<open>Beyond \<open>2 ^ 53\<close> a sum is rounded: adding 1 to \<open>2 ^ 53\<close> changes nothing.\<close>

lemma jsPlus_rounds: "jsPlus (2 ^ 53) 1 = 2 ^ 53"
proof -
  have n: "nat \<bar>2 ^ 53 + 1 :: int\<bar> = 2 ^ 53 + 1"
    by simp
  have "(2 ^ 53 + 1) div 2 = (2 ^ 52 :: nat)"
    by simp
  then have "bitLength (2 ^ 53 + 1) = Suc (bitLength (2 ^ 52))"
    by (subst bitLength.simps) (simp only: refl, simp)
  then have b: "bitLength (2 ^ 53 + 1) - 53 = 1"
    by (simp only: bitLength_power)
  show ?thesis
    unfolding jsPlus_def roundToDouble_def Let_def n b by simp
qed

subsection \<open>Facts about the digits of a number\<close>

lemma digits_nonempty: "digits n \<noteq> []"
  by (subst digits.simps) simp

lemma length_digits_small: "n < 10 \<Longrightarrow> length (digits n) = 1"
  by (subst digits.simps) simp

lemma length_digits_two: "10 \<le> n \<Longrightarrow> n < 100 \<Longrightarrow> length (digits n) = 2"
  by (subst digits.simps) (simp add: length_digits_small)

lemma length_digits_large: "10 \<le> n \<Longrightarrow> 2 \<le> length (digits n)"
proof -
  assume "10 \<le> n"
  then have "digits n = digits (n div 10) @ [digitChar (n mod 10)]"
    by (subst digits.simps) simp
  moreover have "1 \<le> length (digits (n div 10))"
    using digits_nonempty [of "n div 10"] by (cases "digits (n div 10)") simp_all
  ultimately show ?thesis by simp
qed

lemma length_sliceLast: "n \<le> length s \<Longrightarrow> length (sliceLast n s) = n"
  by (simp add: sliceLast_def)

lemma length_padStart: "length (padStart n c s) = max n (length s)"
  by (simp add: padStart_def)

lemma length_year: "10 \<le> getFullYear now \<Longrightarrow> length (year now) = 2"
proof -
  assume y: "10 \<le> getFullYear now"
  then have "decimal (getFullYear now) = digits (nat (getFullYear now))"
    by (simp add: decimal_def)
  moreover from y have "2 \<le> length (digits (nat (getFullYear now)))"
    by (intro length_digits_large) simp
  ultimately show ?thesis
    by (simp add: year_def toString_def length_sliceLast)
qed

lemma length_month: "getMonth now < 12 \<Longrightarrow> length (month now) = 2"
proof -
  assume m: "getMonth now < 12"
  then have "jsPlus (int (getMonth now)) 1 = int (getMonth now) + 1"
    by (intro jsPlus_exact) simp
  then have eq: "decimal (jsPlus (int (getMonth now)) 1) = digits (Suc (getMonth now))"
    by (simp add: decimal_def nat_add_distrib)
  have "length (digits (Suc (getMonth now))) \<le> 2"
  proof (cases "Suc (getMonth now) < 10")
    case True
    then show ?thesis by (simp add: length_digits_small)
  next
    case False
    with m show ?thesis by (simp add: length_digits_two)
  qed
  with eq show ?thesis
    by (simp add: month_def toString_def length_padStart)
qed

subsection \<open>Facts about the Map\<close>



lemma Map_get_empty: "Map_get Map_empty k = None"
  by (simp add: Map_get.rep_eq Map_empty.rep_eq)

lemma setEntry_fresh: "k \<notin> fst ` set es \<Longrightarrow> setEntry k v es = es @ [(k, v)]"
  by (induction es) auto

lemma foldl_setEntry_distinct:
  "distinct (map fst (acc @ es)) \<Longrightarrow>
   foldl (\<lambda>m (k, v). setEntry k v m) acc es = acc @ es"
proof (induction es arbitrary: acc)
  case Nil
  then show ?case by simp
next
  case (Cons e es)
  obtain k v where e: "e = (k, v)" by (cases e)
  from Cons.prems have fresh: "k \<notin> fst ` set acc"
    by (auto simp: e)
  from Cons.prems have "distinct (map fst ((acc @ [(k, v)]) @ es))"
    by (simp add: e)
  then have "foldl (\<lambda>m (k, v). setEntry k v m) (acc @ [(k, v)]) es = (acc @ [(k, v)]) @ es"
    by (rule Cons.IH)
  with fresh show ?case
    by (simp add: e setEntry_fresh)
qed

lemma Rep_foldl_Map_set:
  "Rep_JSMap (foldl (\<lambda>m (k, v). Map_set k v m) m es) =
   foldl (\<lambda>m (k, v). setEntry k v m) (Rep_JSMap m) es"
  by (induction es arbitrary: m) (auto simp: Map_set.rep_eq)

lemma Map_new_entries: "Map_new (Map_entries m) = m"
proof -
  have "distinct (map fst (Rep_JSMap m))"
    using Rep_JSMap [of m] by simp
  then have "foldl (\<lambda>m (k, v). setEntry k v m) [] (Rep_JSMap m) = Rep_JSMap m"
    using foldl_setEntry_distinct [of "[]" "Rep_JSMap m"] by simp
  then have "Rep_JSMap (Map_new (Map_entries m)) = Rep_JSMap m"
    by (simp add: Map_new_def Map_entries.rep_eq Rep_foldl_Map_set Map_empty.rep_eq)
  then show ?thesis
    by (simp add: Rep_JSMap_inject)
qed



subsection \<open>The generator and its caller\<close>

lemma length_keyPrefix:
  "clockReading now \<Longrightarrow> length (keyPrefix now a) = length (prefix a) + 4"
  by (simp add: keyPrefix_def clockReading_def length_year length_month)

lemma substring0_keyPrefix:
  "clockReading now \<Longrightarrow> substring0 (length (prefix a) + 4) (keyPrefix now a @ x) = keyPrefix now a"
  using length_keyPrefix [of now a] by (simp add: substring0_def)

lemma generate_success:
  "jsPlus (lastUsedNumber now a m) 1 \<le> rangeEnd a \<Longrightarrow>
   generateNextAssetNumber now a m =
     Generated
       (keyPrefix now a @
        padStart 4 (codeUnitOf (CHR ''0'')) (toString (jsPlus (lastUsedNumber now a m) 1)))
       (jsPlus (lastUsedNumber now a m) 1)"
  by (simp add: generateNextAssetNumber_def Let_def)


lemma generate_Generated_iff:
  "generateNextAssetNumber now a m = Generated num v \<longleftrightarrow>
   jsPlus (lastUsedNumber now a m) 1 \<le> rangeEnd a \<and> v = jsPlus (lastUsedNumber now a m) 1 \<and>
   num = keyPrefix now a @ padStart 4 (codeUnitOf (CHR ''0'')) (toString v)"
  by (auto simp: generateNextAssetNumber_def Let_def)

lemma handleGenerate_success:
  assumes "clockReading now"
    and "find (\<lambda>t. asset_id t = selectedType s) (assetTypes s) = Some a"
    and "jsPlus (lastUsedNumber now a (lastGeneratedCounters s)) 1 \<le> rangeEnd a"
  shows "handleGenerate now s =
    (None,
     s\<lparr>lastGeneratedCounters :=
         Map_set (keyPrefix now a) (jsPlus (lastUsedNumber now a (lastGeneratedCounters s)) 1)
           (lastGeneratedCounters s),
       generatedNumber :=
         keyPrefix now a @
         padStart 4 (codeUnitOf (CHR ''0''))
           (toString (jsPlus (lastUsedNumber now a (lastGeneratedCounters s)) 1))\<rparr>)"
  using assms
  by (simp add: handleGenerate_def generate_success substring0_keyPrefix Map_new_entries)





subsection \<open>The examples evaluated\<close>

lemma replicate_numeral: "replicate (numeral k) x = x # replicate (pred_numeral k) x"
  by (simp add: numeral_eq_Suc)

lemma laptop_fields:
  "asset_id laptop = ascii ''laptop''" "name laptop = ascii ''Laptop''"
  "prefix laptop = ascii ''LT''"
  "rangeStart laptop = 1" "rangeEnd laptop = 1000" "isDefault laptop"
  by (simp_all add: laptop_def defaultAssetTypes_def)

lemma year_2024: "getFullYear now = 2024 \<Longrightarrow> year now = ascii ''24''"
  by (simp add: year_def toString_def sliceLast_ascii decimal_def digits.simps digitChar_def)

lemma month_june: "getMonth now = 5 \<Longrightarrow> month now = ascii ''06''"
  by (simp add: month_def toString_def jsPlus_exact padStart_ascii decimal_def digits.simps
      digitChar_def)

lemma month_july: "getMonth now = 6 \<Longrightarrow> month now = ascii ''07''"
  by (simp add: month_def toString_def jsPlus_exact padStart_ascii decimal_def digits.simps
      digitChar_def)

lemma june2024_strings: "year june2024 = ascii ''24''" "month june2024 = ascii ''06''"
  by (simp_all add: year_2024 month_june june2024_def)

lemma june2024_end_strings: "year june2024_end = ascii ''24''" "month june2024_end = ascii ''06''"
  by (simp_all add: year_2024 month_june june2024_end_def)

lemma july2024_strings: "year july2024 = ascii ''24''" "month july2024 = ascii ''07''"
  by (simp_all add: year_2024 month_july july2024_def)

lemma clockReading_june2024: "clockReading june2024"
  by (simp add: clockReading_def june2024_def)

lemma keyPrefix_laptop: "keyPrefix june2024 laptop = ascii ''LT2406''"
  by (simp add: keyPrefix_def laptop_fields june2024_strings flip: ascii_append)

lemma formatted_small:
  "padStart 4 (codeUnitOf (CHR ''0'')) (toString 1) = ascii ''0001''"
  "padStart 4 (codeUnitOf (CHR ''0'')) (toString 2) = ascii ''0002''"
  "padStart 4 (codeUnitOf (CHR ''0'')) (toString 3) = ascii ''0003''"
  by (simp_all add: toString_def padStart_ascii decimal_def digits.simps digitChar_def
      replicate_numeral)

lemma find_laptop:
  "find (\<lambda>t. asset_id t = selectedType initialApp) (assetTypes initialApp) = Some laptop"
  by (simp add: initialApp_def defaultAssetTypes_def laptop_def)

lemma counters_initial: "lastGeneratedCounters initialApp = Map_empty"
  by (simp add: initialApp_def loadCounters_def)

lemma lastUsed_initial: "lastUsedNumber june2024 laptop Map_empty = 0"
  by (simp add: lastUsedNumber_def Map_get_empty laptop_fields jsMinus_exact)

lemma jsPlus_small: "jsPlus 0 1 = 1" "jsPlus 1 1 = 2" "jsPlus 2 1 = 3" "jsPlus 1000 1 = 1001"
  by (simp_all add: jsPlus_exact)

lemma generate_june2024_first:
  "generateNextAssetNumber june2024 laptop Map_empty = Generated (ascii ''LT24060001'') 1"
  by (simp add: generate_Generated_iff lastUsed_initial jsPlus_small laptop_fields
      keyPrefix_laptop formatted_small flip: ascii_append)

lemma handleGenerate_june2024_first:
  "handleGenerate june2024 initialApp =
     (None, initialApp\<lparr>lastGeneratedCounters := Map_set (ascii ''LT2406'') 1 Map_empty,
                        generatedNumber := ascii ''LT24060001''\<rparr>)"
proof -
  have "jsPlus (lastUsedNumber june2024 laptop (lastGeneratedCounters initialApp)) 1
          \<le> rangeEnd laptop"
    by (simp add: counters_initial lastUsed_initial jsPlus_small laptop_fields)
  from handleGenerate_success [OF clockReading_june2024 find_laptop this] show ?thesis
    by (simp add: counters_initial lastUsed_initial jsPlus_small keyPrefix_laptop
        formatted_small flip: ascii_append)
qed


subsection \<open>The claims about the generator\<close>









text \<open>
  C9: the array of pairs the counters are saved as, read back by \<open>loadCounters\<close>, is the
  map that was saved: the same entries in the same order. (\<^verbatim>\<open>JSON.stringify\<close> and
  \<^verbatim>\<open>JSON.parse\<close> between the two are taken to return the array they were given.)
\<close>

theorem counters_roundtrip:
  "loadCounters (Some (countersArray m)) = m \<and>
   countersArray (loadCounters (Some (countersArray m))) = countersArray m"
  by (simp add: loadCounters_def countersArray_def Map_new_entries)

subsection \<open>Consecutive generations\<close>

lemma handleGenerate_keeps_registry:
  "assetTypes (snd (handleGenerate now s)) = assetTypes s \<and>
   selectedType (snd (handleGenerate now s)) = selectedType s"
  by (simp add: handleGenerate_def split: option.splits generated.splits)












subsection \<open>The clock\<close>

text \<open>
  C3 as stated fails: the timestamp is no input of the source's generator, which takes
  the asset type and the counters and reads the clock itself. One call, with the laptop
  type and no counters, returns one number in June 2024 and another in July 2024.
\<close>

theorem clock_not_injected_counterexample:
  "generateNextAssetNumber june2024 laptop Map_empty = Generated (ascii ''LT24060001'') 1 \<and>
   generateNextAssetNumber july2024 laptop Map_empty = Generated (ascii ''LT24070001'') 1 \<and>
   generateNextAssetNumber june2024 laptop Map_empty \<noteq>
   generateNextAssetNumber july2024 laptop Map_empty"
proof -
  have l: "lastUsedNumber july2024 laptop Map_empty = 0"
    by (simp add: lastUsedNumber_def Map_get_empty laptop_fields jsMinus_exact)
  have k: "keyPrefix july2024 laptop = ascii ''LT2407''"
    by (simp add: keyPrefix_def laptop_fields july2024_strings flip: ascii_append)
  have b: "generateNextAssetNumber july2024 laptop Map_empty = Generated (ascii ''LT24070001'') 1"
    by (simp add: generate_Generated_iff l jsPlus_small laptop_fields k formatted_small
        flip: ascii_append)
  show ?thesis
    unfolding generate_june2024_first b by simp
qed

text \<open>
  C3, as the code has it: the result of the generator, and the alert and the state that
  \<open>handleGenerate\<close> returns (the updated counters among it), are determined by the asset
  type, the counters and the year and month strings of the clock reading: two runs at
  readings with the same two-character year and the same month agree.
\<close>

theorem generate_determined_by_period:
  assumes "year now = year now'" and "month now = month now'"
  shows "generateNextAssetNumber now a m = generateNextAssetNumber now' a m \<and>
         handleGenerate now s = handleGenerate now' s"
proof -
  have k: "keyPrefix now x = keyPrefix now' x" for x
    using assms by (simp add: keyPrefix_def)
  have e: "exhaustedAlert now x = exhaustedAlert now' x" for x
    using assms by (simp add: exhaustedAlert_def)
  have l: "lastUsedNumber now x c = lastUsedNumber now' x c" for x c
    by (simp add: lastUsedNumber_def k)
  have g: "generateNextAssetNumber now x c = generateNextAssetNumber now' x c" for x c
    unfolding generateNextAssetNumber_def k e l by (rule refl)
  have h: "handleGenerate now s = handleGenerate now' s"
    unfolding handleGenerate_def g by (rule refl)
  from g [of a m] h show ?thesis
    by (rule conjI)
qed

theorem generate_determined_by_period_witness:
  "year june2024 = year june2024_end \<and> month june2024 = month june2024_end \<and>
   june2024 \<noteq> june2024_end \<and>
   generateNextAssetNumber june2024_end laptop (lastGeneratedCounters initialApp) =
     Generated (ascii ''LT24060001'') 1 \<and>
   handleGenerate june2024_end initialApp =
     (None, initialApp\<lparr>lastGeneratedCounters := Map_set (ascii ''LT2406'') 1 Map_empty,
                        generatedNumber := ascii ''LT24060001''\<rparr>)"
proof -
  have y: "year june2024 = year june2024_end" and m: "month june2024 = month june2024_end"
    by (simp_all add: june2024_strings june2024_end_strings)
  have d: "june2024 \<noteq> june2024_end"
    by (simp add: june2024_def june2024_end_def)
  have g: "generateNextAssetNumber june2024 laptop (lastGeneratedCounters initialApp) =
     Generated (ascii ''LT24060001'') 1"
    by (simp add: counters_initial generate_june2024_first)
  note w = generate_determined_by_period [OF y m]
  have g': "generateNextAssetNumber june2024_end laptop (lastGeneratedCounters initialApp) =
     Generated (ascii ''LT24060001'') 1"
    using w [THEN conjunct1, of laptop "lastGeneratedCounters initialApp"] g by simp
  have h': "handleGenerate june2024_end initialApp =
     (None, initialApp\<lparr>lastGeneratedCounters := Map_set (ascii ''LT2406'') 1 Map_empty,
                        generatedNumber := ascii ''LT24060001''\<rparr>)"
    using w [THEN conjunct2, of initialApp] handleGenerate_june2024_first by simp
  from y m d g' h' show ?thesis
    by (intro conjI)
qed

subsection \<open>Adding an asset type\<close>

lemmas string_eval =
  ascii_Cons toUpperCase_def toLowerCase_def trim_def isWhiteSpace_codeUnitOf
  asciiWhiteSpace_def toUpperCase_char_def toLowerCase_char_def upperCaseLetters_def
  lowerCaseLetters_def

lemma getIconComponent_default: "getIconComponent (Some (ascii ''default'')) = Component HardDrive"
  by (simp add: getIconComponent_def iconMap_def)

lemma default_prefixes_upper:
  "map (\<lambda>t. toUpperCase e (prefix t)) defaultAssetTypes =
     map ascii [''LT'', ''PC'', ''KB'', ''MS'', ''PR'', ''SD'']"
  by (simp add: defaultAssetTypes_def string_eval)

lemma default_names_lower:
  "map (\<lambda>t. toLowerCase e (name t)) defaultAssetTypes =
     map ascii [''laptop'', ''desktop pc'', ''keyboard'', ''mouse'', ''printer'',
       ''storage device'']"
  by (simp add: defaultAssetTypes_def string_eval)

lemma default_ids:
  "map asset_id defaultAssetTypes =
     map ascii [''laptop'', ''desktop'', ''keyboard'', ''mouse'', ''printer'', ''storage'']"
  by (simp add: defaultAssetTypes_def)

lemma prefixExists_iff:
  "prefixExists e types p \<longleftrightarrow> p \<in> set (map (\<lambda>t. toUpperCase e (prefix t)) types)"
  by (auto simp: prefixExists_def list_ex_iff)

lemma nameExists_iff:
  "nameExists e types n \<longleftrightarrow>
   toLowerCase e n \<in> set (map (\<lambda>t. toLowerCase e (name t)) types)"
  unfolding nameExists_def list_ex_iff by force

lemma maxRangeEnd_default: "maxRangeEnd defaultAssetTypes = 6000"
  by (simp add: maxRangeEnd_def defaultAssetTypes_def)

lemma add_fresh_result:
  assumes "n = trim e (fst (newAssetType s))"
    and "p = toUpperCase e (trim e (snd (newAssetType s)))"
    and "n \<noteq> []" and "length p = 2 \<or> length p = 3"
    and "\<not> prefixExists e (assetTypes s) p"
    and "\<not> nameExists e (assetTypes s) n"
  shows "handleAddAssetType e s =
    (None,
     s\<lparr>assetTypes := assetTypes s @
          [\<lparr>asset_id = replaceWhiteSpace e (toLowerCase e n), name = n, prefix = p,
            icon = Component HardDrive, iconId = ascii ''default'',
            rangeStart = jsPlus (maxRangeEnd (assetTypes s)) 1,
            rangeEnd = jsPlus (jsPlus (maxRangeEnd (assetTypes s)) 1) 999,
            isDefault = False\<rparr>],
       newAssetType := ([], []), showAddForm := False\<rparr>)"
proof -
  from assms(4) have "p \<noteq> []" "2 \<le> length p" "length p \<le> 3"
    by auto
  with assms(3,5,6) show ?thesis
    unfolding handleAddAssetType_def assms(1) [symmetric] assms(2) [symmetric]
    by (simp add: Let_def getIconComponent_default)
qed

lemma add_success:
  assumes "handleAddAssetType e s = (None, s')"
  shows "s' = s\<lparr>assetTypes := assetTypes s @
                  [\<lparr>asset_id =
                      replaceWhiteSpace e (toLowerCase e (trim e (fst (newAssetType s)))),
                    name = trim e (fst (newAssetType s)),
                    prefix = toUpperCase e (trim e (snd (newAssetType s))),
                    icon = Component HardDrive, iconId = ascii ''default'',
                    rangeStart = jsPlus (maxRangeEnd (assetTypes s)) 1,
                    rangeEnd = jsPlus (jsPlus (maxRangeEnd (assetTypes s)) 1) 999,
                    isDefault = False\<rparr>],
                newAssetType := ([], []), showAddForm := False\<rparr>"
  using assms
  by (auto simp: handleAddAssetType_def Let_def getIconComponent_default split: if_splits)

lemma jsPlus_6000: "jsPlus 6000 1 = 6001" "jsPlus 6001 999 = 7000"
  "jsPlus 7000 1 = 7001" "jsPlus 7001 999 = 8000"
  by (simp_all add: jsPlus_exact)

lemma add_server: "handleAddAssetType e addServerApp = (None, serverApp)"
proof -
  have n: "ascii ''Server'' = trim e (fst (newAssetType addServerApp))"
    and p: "ascii ''SV'' = toUpperCase e (trim e (snd (newAssetType addServerApp)))"
    by (simp_all add: addServerApp_def string_eval)
  have t: "assetTypes addServerApp = defaultAssetTypes"
    by (simp add: addServerApp_def initialApp_def)
  have l: "toLowerCase e (ascii ''Server'') = ascii ''server''"
    by (simp add: string_eval)
  have i: "replaceWhiteSpace e (ascii ''server'') = ascii ''server''"
    by (simp add: string_eval)
  have np: "\<not> prefixExists e (assetTypes addServerApp) (ascii ''SV'')"
    by (simp add: t prefixExists_iff default_prefixes_upper)
  have nn: "\<not> nameExists e (assetTypes addServerApp) (ascii ''Server'')"
    by (simp add: t nameExists_iff default_names_lower l)
  have "handleAddAssetType e addServerApp =
    (None,
     addServerApp\<lparr>assetTypes := assetTypes addServerApp @
          [\<lparr>asset_id = replaceWhiteSpace e (toLowerCase e (ascii ''Server'')),
            name = ascii ''Server'', prefix = ascii ''SV'',
            icon = Component HardDrive, iconId = ascii ''default'',
            rangeStart = jsPlus (maxRangeEnd (assetTypes addServerApp)) 1,
            rangeEnd = jsPlus (jsPlus (maxRangeEnd (assetTypes addServerApp)) 1) 999,
            isDefault = False\<rparr>],
       newAssetType := ([], []), showAddForm := False\<rparr>)"
    by (rule add_fresh_result [OF n p _ _ np nn]) simp_all
  then show ?thesis
    by (simp add: l i t maxRangeEnd_default jsPlus_6000 serverApp_def serverType_def
        addServerApp_def initialApp_def)
qed

lemma add_desktop:
  "handleAddAssetType e addDesktopApp =
    (None,
     initialApp\<lparr>assetTypes := defaultAssetTypes @
          [\<lparr>asset_id = ascii ''desktop'', name = ascii ''Desktop'', prefix = ascii ''DT'',
            icon = Component HardDrive, iconId = ascii ''default'',
            rangeStart = 6001, rangeEnd = 7000, isDefault = False\<rparr>]\<rparr>)"
proof -
  have n: "ascii ''Desktop'' = trim e (fst (newAssetType addDesktopApp))"
    and p: "ascii ''DT'' = toUpperCase e (trim e (snd (newAssetType addDesktopApp)))"
    by (simp_all add: addDesktopApp_def string_eval)
  have t: "assetTypes addDesktopApp = defaultAssetTypes"
    by (simp add: addDesktopApp_def initialApp_def)
  have l: "toLowerCase e (ascii ''Desktop'') = ascii ''desktop''"
    by (simp add: string_eval)
  have i: "replaceWhiteSpace e (ascii ''desktop'') = ascii ''desktop''"
    by (simp add: string_eval)
  have np: "\<not> prefixExists e (assetTypes addDesktopApp) (ascii ''DT'')"
    by (simp add: t prefixExists_iff default_prefixes_upper)
  have nn: "\<not> nameExists e (assetTypes addDesktopApp) (ascii ''Desktop'')"
    by (simp add: t nameExists_iff default_names_lower l)
  have "handleAddAssetType e addDesktopApp =
    (None,
     addDesktopApp\<lparr>assetTypes := assetTypes addDesktopApp @
          [\<lparr>asset_id = replaceWhiteSpace e (toLowerCase e (ascii ''Desktop'')),
            name = ascii ''Desktop'', prefix = ascii ''DT'',
            icon = Component HardDrive, iconId = ascii ''default'',
            rangeStart = jsPlus (maxRangeEnd (assetTypes addDesktopApp)) 1,
            rangeEnd = jsPlus (jsPlus (maxRangeEnd (assetTypes addDesktopApp)) 1) 999,
            isDefault = False\<rparr>],
       newAssetType := ([], []), showAddForm := False\<rparr>)"
    by (rule add_fresh_result [OF n p _ _ np nn]) simp_all
  then show ?thesis
    by (simp add: l i t maxRangeEnd_default jsPlus_6000 addDesktopApp_def initialApp_def)
qed

lemma distinct_default_ids: "distinct (map asset_id defaultAssetTypes)"
  by (simp add: default_ids)

text \<open>
  C5: the ids of the registry do not stay distinct. Over the default registry, whose ids
  are distinct, adding the name Desktop with the prefix DT passes both duplicate checks
  (no default has the prefix DT or the name Desktop) and appends a type whose id,
  desktop, is the id of the default Desktop PC.
\<close>

theorem add_repeats_id:
  "distinct (map asset_id (assetTypes addDesktopApp)) \<and>
   fst (handleAddAssetType e addDesktopApp) = None \<and>
   map asset_id (assetTypes (snd (handleAddAssetType e addDesktopApp))) =
     map ascii [''laptop'', ''desktop'', ''keyboard'', ''mouse'', ''printer'', ''storage'',
       ''desktop''] \<and>
   \<not> distinct (map asset_id (assetTypes (snd (handleAddAssetType e addDesktopApp))))"
proof -
  have "distinct (map asset_id (assetTypes addDesktopApp))"
    by (simp add: addDesktopApp_def initialApp_def distinct_default_ids)
  then show ?thesis
    by (simp add: add_desktop default_ids)
qed





lemma laptop_in_defaults: "laptop \<in> set defaultAssetTypes"
  by (simp add: laptop_def defaultAssetTypes_def)

lemma mem_not_mem_neq: "x \<in> A \<Longrightarrow> y \<notin> A \<Longrightarrow> x \<noteq> y"
  by blast






lemma foldl_max_Max:
  "foldl (\<lambda>m t. max m (f t)) (a :: int) xs = Max (insert a (f ` set xs))"
proof (induction xs arbitrary: a)
  case Nil
  then show ?case by simp
next
  case (Cons x xs)
  have "Max (insert (max a (f x)) (f ` set xs)) = Max (insert a (insert (f x) (f ` set xs)))"
  proof (cases "xs = []")
    case True
    then show ?thesis by (simp add: max.commute)
  next
    case False
    then show ?thesis by (simp add: max.assoc)
  qed
  with Cons.IH [of "max a (f x)"] show ?case
    by simp
qed

lemma maxRangeEnd_Max: "maxRangeEnd types = Max (insert 0 (rangeEnd ` set types))"
  by (simp add: maxRangeEnd_def foldl_max_Max)

text \<open>
  C7 as stated fails: where every range of the registry ends below zero, the new range
  starts at 1 and not after the largest existing end.
\<close>

theorem next_range_counterexample:
  "assetTypes negativeRangeApp \<noteq> [] \<and>
   fst (handleAddAssetType asciiEngine negativeRangeApp) = None \<and>
   Max (rangeEnd ` set (assetTypes negativeRangeApp)) + 1 = - 4 \<and>
   rangeStart (last (assetTypes (snd (handleAddAssetType asciiEngine negativeRangeApp)))) = 1 \<and>
   rangeEnd (last (assetTypes (snd (handleAddAssetType asciiEngine negativeRangeApp)))) = 1000"
proof -
  define e where "e = asciiEngine"
  have n: "ascii ''Server'' = trim e (fst (newAssetType negativeRangeApp))"
    and p: "ascii ''SV'' = toUpperCase e (trim e (snd (newAssetType negativeRangeApp)))"
    by (simp_all add: negativeRangeApp_def string_eval)
  have np: "\<not> prefixExists e (assetTypes negativeRangeApp) (ascii ''SV'')"
    by (simp add: negativeRangeApp_def prefixExists_def string_eval)
  have nn: "\<not> nameExists e (assetTypes negativeRangeApp) (ascii ''Server'')"
    by (simp add: negativeRangeApp_def nameExists_def string_eval)
  have m: "maxRangeEnd (assetTypes negativeRangeApp) = 0"
    by (simp add: negativeRangeApp_def maxRangeEnd_def)
  have j: "jsPlus 0 1 = 1" "jsPlus 1 999 = 1000"
    by (simp_all add: jsPlus_exact)
  have r: "handleAddAssetType e negativeRangeApp =
    (None,
     negativeRangeApp\<lparr>assetTypes := assetTypes negativeRangeApp @
          [\<lparr>asset_id = replaceWhiteSpace e (toLowerCase e (ascii ''Server'')),
            name = ascii ''Server'', prefix = ascii ''SV'',
            icon = Component HardDrive, iconId = ascii ''default'',
            rangeStart = jsPlus (maxRangeEnd (assetTypes negativeRangeApp)) 1,
            rangeEnd = jsPlus (jsPlus (maxRangeEnd (assetTypes negativeRangeApp)) 1) 999,
            isDefault = False\<rparr>],
       newAssetType := ([], []), showAddForm := False\<rparr>)"
    by (rule add_fresh_result [OF n p _ _ np nn]) simp_all
  have a: "assetTypes negativeRangeApp \<noteq> []"
    and x: "Max (rangeEnd ` set (assetTypes negativeRangeApp)) + 1 = - 4"
    by (simp_all add: negativeRangeApp_def)
  have "fst (handleAddAssetType e negativeRangeApp) = None"
    and "rangeStart (last (assetTypes (snd (handleAddAssetType e negativeRangeApp)))) = 1"
    and "rangeEnd (last (assetTypes (snd (handleAddAssetType e negativeRangeApp)))) = 1000"
    unfolding r by (simp_all add: m j)
  with a x show ?thesis
    unfolding e_def by (intro conjI)
qed

text \<open>
  C7, as the code has it: in a registry whose ranges all end at \<open>2 ^ 53 - 1000\<close> or below,
  so that the two sums of the code are exact, a successful add appends one type whose
  range is the thousand numbers after the larger of 0 and the largest \<open>rangeEnd\<close> of the
  registry, and which lies above the range of every existing type, so that it meets none
  of them. Where some existing range ends at 0 or above, that is the range from the
  largest existing \<open>rangeEnd\<close> plus 1 to the largest existing \<open>rangeEnd\<close> plus 1000.
\<close>

theorem add_assigns_next_range:
  assumes "handleAddAssetType e s = (None, s')"
    and "\<forall>t\<in>set (assetTypes s). rangeEnd t \<le> 2 ^ 53 - 1000"
  shows "assetTypes s' = assetTypes s @ [last (assetTypes s')] \<and>
         rangeStart (last (assetTypes s')) = Max (insert 0 (rangeEnd ` set (assetTypes s))) + 1 \<and>
         rangeEnd (last (assetTypes s')) = Max (insert 0 (rangeEnd ` set (assetTypes s))) + 1000 \<and>
         (\<forall>t\<in>set (assetTypes s).
            rangeEnd t < rangeStart (last (assetTypes s')) \<and>
            {rangeStart t..rangeEnd t} \<inter>
              {rangeStart (last (assetTypes s'))..rangeEnd (last (assetTypes s'))} = {}) \<and>
         ((\<exists>t\<in>set (assetTypes s). 0 \<le> rangeEnd t) \<longrightarrow>
            rangeStart (last (assetTypes s')) = Max (rangeEnd ` set (assetTypes s)) + 1 \<and>
            rangeEnd (last (assetTypes s')) = Max (rangeEnd ` set (assetTypes s)) + 1000)"
proof -
  define M where "M = Max (insert 0 (rangeEnd ` set (assetTypes s)))"
  have mx: "maxRangeEnd (assetTypes s) = M"
    by (simp add: M_def maxRangeEnd_Max)
  have M0: "0 \<le> M"
    by (simp add: M_def)
  have "M \<in> insert 0 (rangeEnd ` set (assetTypes s))"
    unfolding M_def by (rule Max_in) simp_all
  with assms(2) have Mb: "M \<le> 2 ^ 53 - 1000"
    by auto
  have j1: "jsPlus M 1 = M + 1"
    using M0 Mb by (intro jsPlus_exact) linarith
  have j2: "jsPlus (M + 1) 999 = M + 1000"
    using M0 Mb jsPlus_exact [of "M + 1" 999] by simp
  note s' = add_success [OF assms(1)]
  have app: "assetTypes s' = assetTypes s @ [last (assetTypes s')]"
    by (subst (1 2) s') simp
  have rs: "rangeStart (last (assetTypes s')) = M + 1"
    by (subst s') (simp add: mx j1)
  have re: "rangeEnd (last (assetTypes s')) = M + 1000"
    by (subst s') (simp add: mx j1 j2)
  have le: "rangeEnd t \<le> M" if "t \<in> set (assetTypes s)" for t
    using that by (simp add: M_def)
  have above: "\<forall>t\<in>set (assetTypes s).
            rangeEnd t < rangeStart (last (assetTypes s')) \<and>
            {rangeStart t..rangeEnd t} \<inter>
              {rangeStart (last (assetTypes s'))..rangeEnd (last (assetTypes s'))} = {}"
  proof
    fix t
    assume "t \<in> set (assetTypes s)"
    then have "rangeEnd t \<le> M"
      by (rule le)
    then show "rangeEnd t < rangeStart (last (assetTypes s')) \<and>
            {rangeStart t..rangeEnd t} \<inter>
              {rangeStart (last (assetTypes s'))..rangeEnd (last (assetTypes s'))} = {}"
      unfolding rs re by auto
  qed
  have nonneg: "(\<exists>t\<in>set (assetTypes s). 0 \<le> rangeEnd t) \<longrightarrow>
            rangeStart (last (assetTypes s')) = Max (rangeEnd ` set (assetTypes s)) + 1 \<and>
            rangeEnd (last (assetTypes s')) = Max (rangeEnd ` set (assetTypes s)) + 1000"
  proof
    assume "\<exists>t\<in>set (assetTypes s). 0 \<le> rangeEnd t"
    then obtain t where t: "t \<in> set (assetTypes s)" "0 \<le> rangeEnd t"
      by blast
    from t(1) have ne: "rangeEnd ` set (assetTypes s) \<noteq> {}"
      by auto
    from t have "rangeEnd t \<le> Max (rangeEnd ` set (assetTypes s))"
      by simp
    with t(2) have "0 \<le> Max (rangeEnd ` set (assetTypes s))"
      by simp
    with ne have "M = Max (rangeEnd ` set (assetTypes s))"
      by (simp add: M_def)
    then show "rangeStart (last (assetTypes s')) = Max (rangeEnd ` set (assetTypes s)) + 1 \<and>
            rangeEnd (last (assetTypes s')) = Max (rangeEnd ` set (assetTypes s)) + 1000"
      by (simp add: rs re)
  qed
  from app rs re above nonneg show ?thesis
    unfolding M_def by (intro conjI)
qed

theorem add_assigns_next_range_witness:
  "handleAddAssetType asciiEngine addServerApp = (None, serverApp) \<and>
   assetTypes serverApp = assetTypes addServerApp @ [serverType] \<and>
   rangeStart (last (assetTypes serverApp)) = 6001 \<and>
   rangeEnd (last (assetTypes serverApp)) = 7000 \<and>
   Max (rangeEnd ` set (assetTypes addServerApp)) = 6000 \<and>
   rangeEnd laptop < rangeStart (last (assetTypes serverApp)) \<and>
   {rangeStart laptop..rangeEnd laptop} \<inter>
     {rangeStart (last (assetTypes serverApp))..rangeEnd (last (assetTypes serverApp))} = {}"
proof -
  have l: "last (assetTypes serverApp) = serverType"
    by (simp add: serverApp_def)
  have t: "assetTypes addServerApp = defaultAssetTypes"
    by (simp add: addServerApp_def initialApp_def)
  have a: "assetTypes serverApp = assetTypes addServerApp @ [serverType]"
    by (simp add: serverApp_def t)
  have m: "Max (rangeEnd ` set (assetTypes addServerApp)) = 6000"
    by (simp add: t defaultAssetTypes_def)
  have b: "\<forall>t\<in>set (assetTypes addServerApp). rangeEnd t \<le> 2 ^ 53 - 1000"
    by (simp add: t defaultAssetTypes_def)
  have mem: "laptop \<in> set (assetTypes addServerApp)"
    unfolding t by (rule laptop_in_defaults)
  have ex: "\<exists>t\<in>set (assetTypes addServerApp). 0 \<le> rangeEnd t"
    by (rule bexI [of _ laptop]) (simp add: laptop_fields, rule mem)
  have add: "handleAddAssetType asciiEngine addServerApp = (None, serverApp)"
    by (rule add_server)
  note w = add_assigns_next_range [OF add b]
  have rs: "rangeStart (last (assetTypes serverApp)) = 6001"
    and re: "rangeEnd (last (assetTypes serverApp)) = 7000"
    using w [THEN conjunct2, THEN conjunct2, THEN conjunct2, THEN conjunct2, THEN mp, OF ex]
    by (simp_all add: m)
  have d: "rangeEnd laptop < rangeStart (last (assetTypes serverApp)) \<and>
   {rangeStart laptop..rangeEnd laptop} \<inter>
     {rangeStart (last (assetTypes serverApp))..rangeEnd (last (assetTypes serverApp))} = {}"
    using w [THEN conjunct2, THEN conjunct2, THEN conjunct2, THEN conjunct1] mem
    by (rule bspec)
  from add a rs re m d show ?thesis
    by (intro conjI) simp_all
qed

text \<open>
  Without the bound the sums are rounded: after a range that ends at \<open>2 ^ 53\<close> the new
  range starts at \<open>2 ^ 53\<close> too.
\<close>

lemma add_success_range_rounded:
  assumes "handleAddAssetType e s = (None, s')"
    and "maxRangeEnd (assetTypes s) = 2 ^ 53"
  shows "rangeStart (last (assetTypes s')) = 2 ^ 53"
  by (subst add_success [OF assms(1)]) (simp only: assms(2) jsPlus_rounds, simp)

subsection \<open>Removing an asset type\<close>

lemma find_Some_mem: "find P xs = Some x \<Longrightarrow> x \<in> set xs \<and> P x"
  by (induction xs) (auto split: if_splits)

lemma filter_other_ids:
  "distinct (map f xs) \<Longrightarrow> find (\<lambda>x. f x = i) xs = Some t \<Longrightarrow>
   filter (\<lambda>x. f x \<noteq> i) xs = remove1 t xs"
proof (induction xs)
  case Nil
  then show ?case by simp
next
  case (Cons x xs)
  show ?case
  proof (cases "f x = i")
    case True
    with Cons.prems have t: "t = x" by simp
    from Cons.prems(1) True have "i \<notin> f ` set xs"
      by simp
    then have "\<forall>y\<in>set xs. f y \<noteq> i"
      by blast
    then have "filter (\<lambda>x. f x \<noteq> i) xs = xs"
      by (simp add: filter_id_conv)
    with True t show ?thesis by simp
  next
    case False
    with Cons.prems have "find (\<lambda>x. f x = i) xs = Some t" and "distinct (map f xs)"
      by simp_all
    with Cons.IH have "filter (\<lambda>x. f x \<noteq> i) xs = remove1 t xs"
      by simp
    moreover from False \<open>find (\<lambda>x. f x = i) xs = Some t\<close> have "x \<noteq> t"
      using find_Some_mem [of "\<lambda>x. f x = i" xs t] by auto
    ultimately show ?thesis using False by simp
  qed
qed

lemma remove_default:
  "find (\<lambda>t. asset_id t = i) (assetTypes s) = Some t \<Longrightarrow> isDefault t \<Longrightarrow>
   handleRemoveAssetType i s = (Some (ascii ''Default asset types cannot be removed.''), s)"
  by (simp add: handleRemoveAssetType_def)

lemma remove_last:
  "find (\<lambda>t. asset_id t = i) (assetTypes s) = Some t \<Longrightarrow> \<not> isDefault t \<Longrightarrow>
   length (assetTypes s) \<le> 1 \<Longrightarrow>
   handleRemoveAssetType i s = (Some (ascii ''Cannot remove the last asset type!''), s)"
  by (simp add: handleRemoveAssetType_def)

lemma remove_other:
  "find (\<lambda>t. asset_id t = i) (assetTypes s) = Some t \<Longrightarrow> \<not> isDefault t \<Longrightarrow>
   \<not> length (assetTypes s) \<le> 1 \<Longrightarrow>
   fst (handleRemoveAssetType i s) = None \<and>
   assetTypes (snd (handleRemoveAssetType i s)) =
     filter (\<lambda>t. asset_id t \<noteq> i) (assetTypes s)"
  by (simp add: handleRemoveAssetType_def Let_def)

lemma remove_keeps_counters:
  "lastGeneratedCounters (snd (handleRemoveAssetType i s)) = lastGeneratedCounters s"
  by (simp add: handleRemoveAssetType_def Let_def)

text \<open>
  In a registry whose ids are distinct, a successful removal takes out the one entry with
  the given id and leaves the others in their order.
\<close>

lemma remove_with_distinct_ids:
  assumes "distinct (map asset_id (assetTypes s))"
    and "find (\<lambda>t. asset_id t = i) (assetTypes s) = Some t"
    and "\<not> isDefault t" and "\<not> length (assetTypes s) \<le> 1"
  shows "fst (handleRemoveAssetType i s) = None"
    and "assetTypes (snd (handleRemoveAssetType i s)) = remove1 t (assetTypes s)"
  using remove_other [OF assms(2-4)] filter_other_ids [OF assms(1,2)] by simp_all

text \<open>The registry after the two adds of \<^verbatim>\<open>My Server\<close> and \<^verbatim>\<open>my-server\<close>.\<close>

lemma add_my_server:
  "handleAddAssetType e addMyServerApp =
    (None,
     initialApp\<lparr>assetTypes := defaultAssetTypes @
          [\<lparr>asset_id = ascii ''my-server'', name = ascii ''My Server'', prefix = ascii ''SV'',
            icon = Component HardDrive, iconId = ascii ''default'',
            rangeStart = 6001, rangeEnd = 7000, isDefault = False\<rparr>]\<rparr>)"
proof -
  have n: "ascii ''My Server'' = trim e (fst (newAssetType addMyServerApp))"
    and p: "ascii ''SV'' = toUpperCase e (trim e (snd (newAssetType addMyServerApp)))"
    by (simp_all add: addMyServerApp_def string_eval)
  have t: "assetTypes addMyServerApp = defaultAssetTypes"
    by (simp add: addMyServerApp_def initialApp_def)
  have l: "toLowerCase e (ascii ''My Server'') = ascii ''my server''"
    by (simp add: string_eval)
  have i: "replaceWhiteSpace e (ascii ''my server'') = ascii ''my-server''"
    by (simp add: string_eval)
  have np: "\<not> prefixExists e (assetTypes addMyServerApp) (ascii ''SV'')"
    by (simp add: t prefixExists_iff default_prefixes_upper)
  have nn: "\<not> nameExists e (assetTypes addMyServerApp) (ascii ''My Server'')"
    by (simp add: t nameExists_iff default_names_lower l)
  have "handleAddAssetType e addMyServerApp =
    (None,
     addMyServerApp\<lparr>assetTypes := assetTypes addMyServerApp @
          [\<lparr>asset_id = replaceWhiteSpace e (toLowerCase e (ascii ''My Server'')),
            name = ascii ''My Server'', prefix = ascii ''SV'',
            icon = Component HardDrive, iconId = ascii ''default'',
            rangeStart = jsPlus (maxRangeEnd (assetTypes addMyServerApp)) 1,
            rangeEnd = jsPlus (jsPlus (maxRangeEnd (assetTypes addMyServerApp)) 1) 999,
            isDefault = False\<rparr>],
       newAssetType := ([], []), showAddForm := False\<rparr>)"
    by (rule add_fresh_result [OF n p _ _ np nn]) simp_all
  then show ?thesis
    by (simp add: l i t maxRangeEnd_default jsPlus_6000 addMyServerApp_def initialApp_def)
qed

lemma two_servers:
  "twoServersApp e =
     initialApp\<lparr>assetTypes := defaultAssetTypes @
          [\<lparr>asset_id = ascii ''my-server'', name = ascii ''My Server'', prefix = ascii ''SV'',
            icon = Component HardDrive, iconId = ascii ''default'',
            rangeStart = 6001, rangeEnd = 7000, isDefault = False\<rparr>,
           \<lparr>asset_id = ascii ''my-server'', name = ascii ''my-server'', prefix = ascii ''SW'',
            icon = Component HardDrive, iconId = ascii ''default'',
            rangeStart = 7001, rangeEnd = 8000, isDefault = False\<rparr>]\<rparr>"
proof -
  define s where "s = (snd (handleAddAssetType e addMyServerApp))
      \<lparr>newAssetType := (ascii ''my-server'', ascii ''SW'')\<rparr>"
  have t: "assetTypes s = defaultAssetTypes @
          [\<lparr>asset_id = ascii ''my-server'', name = ascii ''My Server'', prefix = ascii ''SV'',
            icon = Component HardDrive, iconId = ascii ''default'',
            rangeStart = 6001, rangeEnd = 7000, isDefault = False\<rparr>]"
    by (simp add: s_def add_my_server)
  have n: "ascii ''my-server'' = trim e (fst (newAssetType s))"
    and p: "ascii ''SW'' = toUpperCase e (trim e (snd (newAssetType s)))"
    by (simp_all add: s_def string_eval)
  have l: "toLowerCase e (ascii ''my-server'') = ascii ''my-server''"
    "toLowerCase e (ascii ''My Server'') = ascii ''my server''"
    by (simp_all add: string_eval)
  have u: "toUpperCase e (ascii ''SV'') = ascii ''SV''"
    by (simp add: string_eval)
  have i: "replaceWhiteSpace e (ascii ''my-server'') = ascii ''my-server''"
    by (simp add: string_eval)
  have np: "\<not> prefixExists e (assetTypes s) (ascii ''SW'')"
    by (simp add: t prefixExists_iff default_prefixes_upper u)
  have nn: "\<not> nameExists e (assetTypes s) (ascii ''my-server'')"
    by (simp add: t nameExists_iff default_names_lower l)
  have m: "maxRangeEnd (assetTypes s) = 7000"
    by (simp add: t maxRangeEnd_def defaultAssetTypes_def)
  have "handleAddAssetType e s =
    (None,
     s\<lparr>assetTypes := assetTypes s @
          [\<lparr>asset_id = replaceWhiteSpace e (toLowerCase e (ascii ''my-server'')),
            name = ascii ''my-server'', prefix = ascii ''SW'',
            icon = Component HardDrive, iconId = ascii ''default'',
            rangeStart = jsPlus (maxRangeEnd (assetTypes s)) 1,
            rangeEnd = jsPlus (jsPlus (maxRangeEnd (assetTypes s)) 1) 999,
            isDefault = False\<rparr>],
       newAssetType := ([], []), showAddForm := False\<rparr>)"
    by (rule add_fresh_result [OF n p _ _ np nn]) simp_all
  then have "snd (handleAddAssetType e s) =
     s\<lparr>assetTypes := assetTypes s @
          [\<lparr>asset_id = ascii ''my-server'',
            name = ascii ''my-server'', prefix = ascii ''SW'',
            icon = Component HardDrive, iconId = ascii ''default'',
            rangeStart = 7001, rangeEnd = 8000,
            isDefault = False\<rparr>],
       newAssetType := ([], []), showAddForm := False\<rparr>"
    by (simp add: l i m jsPlus_6000)
  also have "\<dots> = initialApp\<lparr>assetTypes := defaultAssetTypes @
          [\<lparr>asset_id = ascii ''my-server'', name = ascii ''My Server'', prefix = ascii ''SV'',
            icon = Component HardDrive, iconId = ascii ''default'',
            rangeStart = 6001, rangeEnd = 7000, isDefault = False\<rparr>,
           \<lparr>asset_id = ascii ''my-server'', name = ascii ''my-server'', prefix = ascii ''SW'',
            icon = Component HardDrive, iconId = ascii ''default'',
            rangeStart = 7001, rangeEnd = 8000, isDefault = False\<rparr>]\<rparr>"
    unfolding t by (simp add: s_def add_my_server initialApp_def)
  finally show ?thesis
    unfolding twoServersApp_def s_def .
qed

lemma default_ids_other:
  assumes "i \<notin> set (map ascii [''laptop'', ''desktop'', ''keyboard'', ''mouse'', ''printer'',
                       ''storage''])"
  shows "find (\<lambda>t. asset_id t = i) defaultAssetTypes = None"
    and "filter (\<lambda>t. asset_id t \<noteq> i) defaultAssetTypes = defaultAssetTypes"
proof -
  have "\<forall>t\<in>set defaultAssetTypes. asset_id t \<noteq> i"
  proof
    fix t
    assume "t \<in> set defaultAssetTypes"
    then have "asset_id t \<in> set (map asset_id defaultAssetTypes)"
      by simp
    then have "asset_id t \<in> set (map ascii [''laptop'', ''desktop'', ''keyboard'', ''mouse'',
        ''printer'', ''storage''])"
      by (simp only: default_ids)
    then show "asset_id t \<noteq> i"
      using assms by (rule mem_not_mem_neq)
  qed
  then show "find (\<lambda>t. asset_id t = i) defaultAssetTypes = None"
    and "filter (\<lambda>t. asset_id t \<noteq> i) defaultAssetTypes = defaultAssetTypes"
    by (simp_all add: find_None_iff filter_id_conv)
qed

lemma find_append:
  "find P (xs @ ys) = (case find P xs of Some x \<Rightarrow> Some x | None \<Rightarrow> find P ys)"
  by (induction xs) simp_all

lemma find_desktop:
  "find (\<lambda>t. asset_id t = ascii ''desktop'') (defaultAssetTypes @ ts) =
   Some (defaultAssetTypes ! 1)"
  by (simp add: defaultAssetTypes_def)

text \<open>
  C8: removal does not always take out exactly the entry it is called for, and it refuses
  entries that are not protected. Adding \<^verbatim>\<open>My Server\<close> and then \<^verbatim>\<open>my-server\<close> to the default
  registry gives eight entries, the last two with the one id \<^verbatim>\<open>my-server\<close> and neither
  protected; the removal of \<^verbatim>\<open>my-server\<close> succeeds and takes out both, leaving the six
  default entries. After adding \<^verbatim>\<open>Desktop\<close> to the default registry, the last entry has the
  id \<^verbatim>\<open>desktop\<close> and is not protected; its removal is refused as that of a default type,
  and the state is unchanged. The counters are the same after each of the two calls.
\<close>

theorem remove_drops_same_id:
  "map asset_id (assetTypes (twoServersApp e)) =
     map ascii [''laptop'', ''desktop'', ''keyboard'', ''mouse'', ''printer'', ''storage'',
                ''my-server'', ''my-server''] \<and>
   map isDefault (assetTypes (twoServersApp e)) =
     [True, True, True, True, True, True, False, False] \<and>
   fst (handleRemoveAssetType (ascii ''my-server'') (twoServersApp e)) = None \<and>
   assetTypes (snd (handleRemoveAssetType (ascii ''my-server'') (twoServersApp e))) =
     defaultAssetTypes \<and>
   length (assetTypes (snd (handleRemoveAssetType (ascii ''my-server'') (twoServersApp e)))) +
     2 = length (assetTypes (twoServersApp e)) \<and>
   lastGeneratedCounters (snd (handleRemoveAssetType (ascii ''my-server'') (twoServersApp e))) =
     lastGeneratedCounters (twoServersApp e) \<and>
   asset_id (last (assetTypes (snd (handleAddAssetType e addDesktopApp)))) = ascii ''desktop'' \<and>
   \<not> isDefault (last (assetTypes (snd (handleAddAssetType e addDesktopApp)))) \<and>
   handleRemoveAssetType (ascii ''desktop'') (snd (handleAddAssetType e addDesktopApp)) =
     (Some (ascii ''Default asset types cannot be removed.''),
      snd (handleAddAssetType e addDesktopApp))"
proof -
  have ids: "map asset_id (assetTypes (twoServersApp e)) =
     map ascii [''laptop'', ''desktop'', ''keyboard'', ''mouse'', ''printer'', ''storage'',
                ''my-server'', ''my-server'']"
    by (simp add: two_servers default_ids)
  have dfl: "map isDefault (assetTypes (twoServersApp e)) =
     [True, True, True, True, True, True, False, False]"
    by (simp add: two_servers defaultAssetTypes_def)
  have o: "find (\<lambda>t. asset_id t = ascii ''my-server'') defaultAssetTypes = None"
    "filter (\<lambda>t. asset_id t \<noteq> ascii ''my-server'') defaultAssetTypes = defaultAssetTypes"
    by (rule default_ids_other, simp)+
  have len: "length defaultAssetTypes = 6"
    by (simp add: defaultAssetTypes_def)
  have r: "fst (handleRemoveAssetType (ascii ''my-server'') (twoServersApp e)) = None"
    "assetTypes (snd (handleRemoveAssetType (ascii ''my-server'') (twoServersApp e))) =
     defaultAssetTypes"
    by (simp_all add: handleRemoveAssetType_def Let_def two_servers find_append o len)
  have n: "length (assetTypes (snd (handleRemoveAssetType (ascii ''my-server'')
      (twoServersApp e)))) + 2 = length (assetTypes (twoServersApp e))"
    unfolding r by (simp add: two_servers)
  have d: "asset_id (last (assetTypes (snd (handleAddAssetType e addDesktopApp)))) =
      ascii ''desktop''"
    "\<not> isDefault (last (assetTypes (snd (handleAddAssetType e addDesktopApp))))"
    by (simp_all add: add_desktop)
  have p: "isDefault (defaultAssetTypes ! 1)"
    by (simp add: defaultAssetTypes_def)
  have x: "handleRemoveAssetType (ascii ''desktop'') (snd (handleAddAssetType e addDesktopApp)) =
     (Some (ascii ''Default asset types cannot be removed.''),
      snd (handleAddAssetType e addDesktopApp))"
    by (rule remove_default [of _ _ "defaultAssetTypes ! 1"])
      (simp add: add_desktop find_desktop, rule p)
  from ids dfl r n remove_keeps_counters d x show ?thesis
    by (intro conjI)
qed

end
